theory Spec2Isabelle
  imports Main "HOL-Library.Sublist" "HOL-Library.Multiset"
begin

section \<open>JavaScript values and library operations the server relies on\<close>

text \<open>
  The server is written in JavaScript (src/index.js and a second variant of the same
  program, src/unnamed/part_000).  A string is a list of characters; a value that may be
  \<^verbatim>\<open>undefined\<close> or \<^verbatim>\<open>null\<close> is an \<open>option\<close>; a thrown exception is the left
  summand of a result.  Time stamps are the integers \<^verbatim>\<open>Date.getTime()\<close> returns.
\<close>

datatype js_error = TypeError | RangeError | AxiosError

text \<open>Truthiness of a value that is a string, \<^verbatim>\<open>undefined\<close> or \<^verbatim>\<open>null\<close>.\<close>

definition truthy :: "string option \<Rightarrow> bool" where
  "truthy v = (case v of None \<Rightarrow> False | Some s \<Rightarrow> s \<noteq> [])"

text \<open>
  \<^verbatim>\<open>slice(start, end)\<close> of strings and arrays: a negative index counts from the end,
  and both indices are clamped to the length.  \<^verbatim>\<open>slice(start)\<close> runs to the end.
\<close>

definition relative_index :: "int \<Rightarrow> nat \<Rightarrow> nat" where
  "relative_index k len = (if k < 0 then nat (max (int len + k) 0) else min (nat k) len)"

definition slice :: "int \<Rightarrow> int \<Rightarrow> 'a list \<Rightarrow> 'a list" where
  "slice start fin xs =
     (let lo = relative_index start (length xs); hi = relative_index fin (length xs)
      in take (hi - lo) (drop lo xs))"

definition slice_from :: "int \<Rightarrow> 'a list \<Rightarrow> 'a list" where
  "slice_from start xs = slice start (int (length xs)) xs"

text \<open>\<^verbatim>\<open>String.prototype.indexOf\<close>: the position of the first occurrence.\<close>

fun indexOf :: "string \<Rightarrow> string \<Rightarrow> nat option" where
  "indexOf [] pat = (if pat = [] then Some 0 else None)"
| "indexOf (c # s) pat =
     (if prefix pat (c # s) then Some 0 else map_option Suc (indexOf s pat))"

definition str_includes :: "string \<Rightarrow> string \<Rightarrow> bool" where
  "str_includes s pat = (indexOf s pat \<noteq> None)"

text \<open>
  \<^verbatim>\<open>String.prototype.replace(searchString, replaceValue)\<close> with two strings replaces the
  first occurrence only, and the replacement text is the result of ECMAScript's
  GetSubstitution on \<^verbatim>\<open>replaceValue\<close>: \<^verbatim>\<open>$$\<close> stands for a dollar sign, \<^verbatim>\<open>$&\<close> for the
  matched text, \<^verbatim>\<open>$`\<close> for the text before the match and \<^verbatim>\<open>$'\<close> for the text after
  it.  With a string pattern there are no capture groups, so every other use of the
  dollar sign is copied as it is.
\<close>

fun GetSubstitution :: "string \<Rightarrow> string \<Rightarrow> string \<Rightarrow> string \<Rightarrow> string" where
  "GetSubstitution matched preceding following [] = []"
| "GetSubstitution matched preceding following [c] = [c]"
| "GetSubstitution matched preceding following (c # d # rest) =
     (if c = CHR ''$'' \<and> d = CHR ''$''
        then CHR ''$'' # GetSubstitution matched preceding following rest
      else if c = CHR ''$'' \<and> d = CHR ''&''
        then matched @ GetSubstitution matched preceding following rest
      else if c = CHR ''$'' \<and> d = CHR 0x60
        then preceding @ GetSubstitution matched preceding following rest
      else if c = CHR ''$'' \<and> d = CHR 0x27
        then following @ GetSubstitution matched preceding following rest
      else c # GetSubstitution matched preceding following (d # rest))"

definition replace :: "string \<Rightarrow> string \<Rightarrow> string \<Rightarrow> string" where
  "replace s searchString replaceValue =
     (case indexOf s searchString of
        None \<Rightarrow> s
      | Some pos \<Rightarrow>
          (let preceding = take pos s;
               following = drop (pos + length searchString) s
           in preceding @ GetSubstitution searchString preceding following replaceValue
                @ following))"

text \<open>\<^verbatim>\<open>String.prototype.trim\<close>, on the white space of the one-byte characters.\<close>

definition is_space :: "char \<Rightarrow> bool" where
  "is_space c = ((of_char c :: nat) \<in> {9, 10, 11, 12, 13, 32, 160})"

definition trim :: "string \<Rightarrow> string" where
  "trim s = rev (dropWhile is_space (rev (dropWhile is_space s)))"

text \<open>
  \<^verbatim>\<open>Buffer.from(string)\<close> encodes in UTF-8 (a character from 128 on takes two bytes) and
  throws a TypeError on \<^verbatim>\<open>undefined\<close>; \<^verbatim>\<open>crypto.timingSafeEqual\<close> throws a RangeError
  when its two buffers differ in byte length.
\<close>

definition utf8_char :: "char \<Rightarrow> nat list" where
  "utf8_char c =
     (let n = (of_char c :: nat) in if n < 128 then [n] else [192 + n div 64, 128 + n mod 64])"

definition Buffer_from :: "string option \<Rightarrow> js_error + nat list" where
  "Buffer_from v = (case v of None \<Rightarrow> Inl TypeError | Some s \<Rightarrow> Inr (concat (map utf8_char s)))"

definition timingSafeEqual :: "nat list \<Rightarrow> nat list \<Rightarrow> js_error + bool" where
  "timingSafeEqual a b = (if length a \<noteq> length b then Inl RangeError else Inr (a = b))"

text \<open>
  \<^verbatim>\<open>Array.prototype.sort(comparefn)\<close> is stable and orders by the comparator: an element
  stays in front of a later one unless the comparator is positive on the pair.  For a
  consistent comparator every stable sort returns the same array; insertion from the
  right is the one written here.
\<close>

fun sort_insert :: "('a \<Rightarrow> 'a \<Rightarrow> int) \<Rightarrow> 'a \<Rightarrow> 'a list \<Rightarrow> 'a list" where
  "sort_insert comparefn x [] = [x]"
| "sort_insert comparefn x (y # ys) =
     (if comparefn x y \<le> 0 then x # y # ys else y # sort_insert comparefn x ys)"

definition array_sort :: "('a \<Rightarrow> 'a \<Rightarrow> int) \<Rightarrow> 'a list \<Rightarrow> 'a list" where
  "array_sort comparefn xs = foldr (sort_insert comparefn) xs []"

text \<open>\<^verbatim>\<open>Array.prototype.find\<close>, as the index of the first element that satisfies the test.\<close>

fun findIndex :: "('a \<Rightarrow> bool) \<Rightarrow> 'a list \<Rightarrow> nat option" where
  "findIndex P [] = None"
| "findIndex P (x # xs) = (if P x then Some 0 else map_option Suc (findIndex P xs))"

section \<open>Data model\<close>

record message =
  m_id :: string
  m_text :: string
  m_sender :: string
  m_timestamp :: int

record conversation =
  c_id :: string
  c_userId :: "string option"
  c_username :: string
  c_messages :: "message list"
  c_status :: string
  c_createdAt :: int
  c_lastActivity :: int

text \<open>The part of the \<^verbatim>\<open>configuration\<close> object the modelled functions read.\<close>

record configuration =
  instagram_verifyToken :: string
  gpt_endpoint :: string
  gpt_model :: string
  gpt_prompt :: string
  booking_calendlyUrl :: string

text \<open>
  What the environment returns to one call of \<^verbatim>\<open>addMessageToConversation\<close>, in program
  order: every \<^verbatim>\<open>crypto.randomUUID()\<close> and every \<^verbatim>\<open>new Date()\<close> is a reading of its own.
  The first three are read only when a conversation is created.
\<close>

record reads =
  r_conversation_id :: string
  r_createdAt :: int
  r_lastActivity_created :: int
  r_message_id :: string
  r_timestamp :: int
  r_lastActivity :: int

section \<open>Helper functions of the server\<close>

text \<open>
  \<^verbatim>\<open>verifyWebhookSignature(payload, signature)\<close>.  The keyed hash of Node's crypto module
  is a parameter: \<open>hmac key payload\<close> is the hex digest.  \<open>secret\<close> is the environment
  variable \<^verbatim>\<open>WEBHOOK_SECRET\<close>.
\<close>

definition verifyWebhookSignature ::
  "(string \<Rightarrow> string \<Rightarrow> string) \<Rightarrow> string option \<Rightarrow> string \<Rightarrow> string option \<Rightarrow> js_error + bool" where
  "verifyWebhookSignature hmac secret payload signature =
     (let expectedSignature =
            hmac (if truthy secret then the secret else ''default_secret'') payload
      in case Buffer_from signature of
           Inl e \<Rightarrow> Inl e
         | Inr a \<Rightarrow>
             (case Buffer_from (Some (''sha256='' @ expectedSignature)) of
                Inl e \<Rightarrow> Inl e
              | Inr b \<Rightarrow> timingSafeEqual a b))"

text \<open>
  \<^verbatim>\<open>addMessageToConversation(userId, username, message, sender)\<close> on the array
  \<^verbatim>\<open>conversations\<close>.  The conversation found is changed in place, so the array holds the
  changed conversation at the same index; a new one is pushed at the end.  The name of a
  new conversation is \<^verbatim>\<open>username || `user_${userId.slice(-6)}`\<close>, which throws a
  TypeError when \<^verbatim>\<open>username\<close> is falsy and \<^verbatim>\<open>userId\<close> is undefined; nothing has been
  pushed by then.
\<close>

definition new_username :: "string option \<Rightarrow> string option \<Rightarrow> js_error + string" where
  "new_username userId username =
     (if truthy username then Inr (the username)
      else case userId of
             None \<Rightarrow> Inl TypeError
           | Some u \<Rightarrow> Inr (''user_'' @ slice_from (- 6) u))"

text \<open>The first half: \<^verbatim>\<open>find\<close>, and the creation when nothing is found.\<close>

definition find_or_create ::
  "reads \<Rightarrow> conversation list \<Rightarrow> string option \<Rightarrow> string option
     \<Rightarrow> js_error + (nat \<times> conversation list)" where
  "find_or_create r conversations userId username =
     (case findIndex (\<lambda>c. c_userId c = userId) conversations of
        Some i \<Rightarrow> Inr (i, conversations)
      | None \<Rightarrow>
          (case new_username userId username of
             Inl e \<Rightarrow> Inl e
           | Inr name \<Rightarrow>
               Inr (length conversations,
                    conversations @
                      [\<lparr>c_id = r_conversation_id r, c_userId = userId, c_username = name,
                        c_messages = [], c_status = ''active'', c_createdAt = r_createdAt r,
                        c_lastActivity = r_lastActivity_created r\<rparr>])))"

definition addMessageToConversation ::
  "reads \<Rightarrow> conversation list \<Rightarrow> string option \<Rightarrow> string option \<Rightarrow> string \<Rightarrow> string
     \<Rightarrow> js_error + (conversation \<times> conversation list)" where
  "addMessageToConversation r conversations userId username message sender =
     (case find_or_create r conversations userId username of
        Inl e \<Rightarrow> Inl e
      | Inr (i, conversations') \<Rightarrow>
          (let found = conversations' ! i;
               conversation =
                 found\<lparr>c_messages := c_messages found @
                          [\<lparr>m_id = r_message_id r, m_text = message, m_sender = sender,
                            m_timestamp = r_timestamp r\<rparr>],
                       c_lastActivity := r_lastActivity r\<rparr>
           in Inr (conversation, conversations'[i := conversation])))"

section \<open>Webhook verification (GET /webhook)\<close>

record verification_query =
  hub_mode :: "string option"
  hub_verify_token :: "string option"
  hub_challenge :: "string option"

text \<open>
  A response is \<^verbatim>\<open>res.status(n).send(body)\<close> or \<^verbatim>\<open>res.sendStatus(n)\<close>.
\<close>

datatype response = Send nat "string option" | SendStatus nat

definition get_webhook :: "configuration \<Rightarrow> verification_query \<Rightarrow> response" where
  "get_webhook cfg query =
     (let mode = hub_mode query; token = hub_verify_token query;
          challenge = hub_challenge query
      in if truthy mode \<and> truthy token then
           (if mode = Some ''subscribe'' \<and> token = Some (instagram_verifyToken cfg)
            then Send 200 challenge
            else SendStatus 403)
         else SendStatus 400)"

section \<open>Conversation listing (GET /api/conversations)\<close>

text \<open>
  The handler sorts the array \<^verbatim>\<open>conversations\<close> in place with the comparator
  \<^verbatim>\<open>(a, b) => b.lastActivity - a.lastActivity\<close> (in milliseconds) and sends it: the
  result is the body and the new content of the store.
\<close>

definition by_lastActivity :: "conversation \<Rightarrow> conversation \<Rightarrow> int" where
  "by_lastActivity a b = c_lastActivity b - c_lastActivity a"

definition get_conversations :: "conversation list \<Rightarrow> conversation list \<times> conversation list" where
  "get_conversations conversations =
     (let sortedConversations = array_sort by_lastActivity conversations
      in (sortedConversations, sortedConversations))"

text \<open>
  The array \<^verbatim>\<open>conversations\<close> is empty when the program starts and is written by
  \<^verbatim>\<open>addMessageToConversation\<close> and by the sort of the listing handler only.
  \<open>store_after ops\<close> is its content after a sequence of such calls; a call of
  \<^verbatim>\<open>addMessageToConversation\<close> that throws leaves the array as it was.
\<close>

datatype store_op =
  AddMessage reads "string option" "string option" string string
| ListConversations

fun apply_op :: "conversation list \<Rightarrow> store_op \<Rightarrow> conversation list" where
  "apply_op conversations (AddMessage r userId username message sender) =
     (case addMessageToConversation r conversations userId username message sender of
        Inl e \<Rightarrow> conversations
      | Inr (conversation, conversations') \<Rightarrow> conversations')"
| "apply_op conversations ListConversations = snd (get_conversations conversations)"

definition store_after :: "store_op list \<Rightarrow> conversation list" where
  "store_after ops = foldl apply_op [] ops"

section \<open>The LLM client\<close>

record chat_message =
  cm_role :: string
  cm_content :: string

text \<open>
  The body of the POST to the chat-completion endpoint (the sampling temperature and the
  headers are constants of the source and are left out).
\<close>

record completion_request =
  rq_endpoint :: string
  rq_model :: string
  rq_messages :: "chat_message list"
  rq_max_tokens :: nat

text \<open>The constant \<^verbatim>\<open>messages\<close> of \<^verbatim>\<open>sendMessageToOpenAI\<close>.\<close>

definition openai_messages :: "configuration \<Rightarrow> string \<Rightarrow> message list \<Rightarrow> chat_message list" where
  "openai_messages cfg message conversationHistory =
     \<lparr>cm_role = ''system'', cm_content = gpt_prompt cfg\<rparr>
       # map (\<lambda>msg. \<lparr>cm_role = (if m_sender msg = ''user'' then ''user'' else ''assistant''),
                        cm_content = m_text msg\<rparr>) conversationHistory
       @ [\<lparr>cm_role = ''user'', cm_content = message\<rparr>]"

definition openai_request :: "configuration \<Rightarrow> string \<Rightarrow> message list \<Rightarrow> completion_request" where
  "openai_request cfg message conversationHistory =
     \<lparr>rq_endpoint = gpt_endpoint cfg, rq_model = gpt_model cfg,
      rq_messages = openai_messages cfg message conversationHistory, rq_max_tokens = 150\<rparr>"

text \<open>
  \<^verbatim>\<open>sendMessageToOpenAI(message, conversationHistory)\<close>.  \<open>http\<close> is what the endpoint
  does with the request: \<^verbatim>\<open>response.data.choices[0].message.content\<close>, or the exception
  that \<^verbatim>\<open>axios.post\<close> or one of these property reads throws.  The result is the request
  sent and the value returned.  src/index.js lets the exception through; the variant in
  src/unnamed/part_000 catches it and returns a fixed apology.
\<close>

definition sendMessageToOpenAI ::
  "configuration \<Rightarrow> js_error + string \<Rightarrow> string \<Rightarrow> message list
     \<Rightarrow> completion_request \<times> (js_error + string)" where
  "sendMessageToOpenAI cfg http message conversationHistory =
     (openai_request cfg message conversationHistory,
      (case http of Inl e \<Rightarrow> Inl e | Inr c \<Rightarrow> Inr (trim c)))"

definition sendMessageToOpenAI_part0 ::
  "configuration \<Rightarrow> js_error + string \<Rightarrow> string \<Rightarrow> message list
     \<Rightarrow> completion_request \<times> (js_error + string)" where
  "sendMessageToOpenAI_part0 cfg http message conversationHistory =
     (openai_request cfg message conversationHistory,
      (case http of
         Inl e \<Rightarrow> Inr ''Sorry, I'm having trouble responding right now.''
       | Inr c \<Rightarrow> Inr (trim c)))"

definition sendMessageToLLM ::
  "configuration \<Rightarrow> js_error + string \<Rightarrow> string \<Rightarrow> message list
     \<Rightarrow> completion_request \<times> (js_error + string)" where
  "sendMessageToLLM cfg http message conversationHistory =
     sendMessageToOpenAI cfg http message conversationHistory"

definition sendMessageToLLM_part0 ::
  "configuration \<Rightarrow> js_error + string \<Rightarrow> string \<Rightarrow> message list
     \<Rightarrow> completion_request \<times> (js_error + string)" where
  "sendMessageToLLM_part0 cfg http message conversationHistory =
     sendMessageToOpenAI_part0 cfg http message conversationHistory"

section \<open>Webhook delivery (POST /webhook)\<close>

text \<open>
  The body of the request, as far as the handler reads it; every field may be absent, and
  \<^verbatim>\<open>sender.id\<close> and \<^verbatim>\<open>message.text\<close> are strings when present, as the platform sends
  them.  An entry is processed with what the environment answers in the meantime: the readings
  of the clock and of the UUID generator, and the answer of the completion endpoint.
\<close>

record sender_obj =
  s_id :: "string option"

record message_obj =
  mo_text :: "string option"

record webhook_event =
  ev_sender :: "sender_obj option"
  ev_message :: "message_obj option"

record entry =
  messaging :: "webhook_event list option"

record entry_env =
  e_reads :: reads
  e_llm :: "js_error + string"

record webhook_body =
  body_object :: "string option"
  body_entry :: "(entry \<times> entry_env) list option"

text \<open>
  \<open>req_signature\<close> is \<^verbatim>\<open>req.get("x-hub-signature-256")\<close> and \<open>req_payload\<close> is
  \<^verbatim>\<open>JSON.stringify(req.body)\<close>.
\<close>

record webhook_request =
  req_signature :: "string option"
  req_payload :: string
  req_body :: webhook_body

text \<open>
  What a handler does besides answering and changing the store: a completion request sent,
  a delivery of \<open>finalResponse\<close> to \<open>senderId\<close> scheduled with \<^verbatim>\<open>setTimeout\<close>, and (in
  the variant that runs the entries in asynchronous callbacks) a promise rejected with
  nobody to catch it.
\<close>

datatype effect =
  LLMRequest completion_request
| SetTimeout "string option" string
| UnhandledRejection js_error

text \<open>\<^verbatim>\<open>entry.messaging?.[0]\<close>\<close>

definition first_event :: "entry \<Rightarrow> webhook_event option" where
  "first_event entry =
     (case messaging entry of None \<Rightarrow> None | Some [] \<Rightarrow> None | Some (ev # _) \<Rightarrow> Some ev)"

text \<open>The constant \<^verbatim>\<open>finalResponse\<close> of the two variants.\<close>

definition finalResponse :: "configuration \<Rightarrow> string \<Rightarrow> string" where
  "finalResponse cfg llmResponse =
     replace llmResponse ''{BOOKING_URL}'' (booking_calendlyUrl cfg)"

definition finalResponse_part0 :: "configuration \<Rightarrow> string \<Rightarrow> string" where
  "finalResponse_part0 cfg llmResponse =
     (if str_includes llmResponse ''{BOOKING_URL}''
      then replace llmResponse ''{BOOKING_URL}'' (booking_calendlyUrl cfg)
      else llmResponse)"

text \<open>
  The body of the loop over \<^verbatim>\<open>body.entry\<close> in src/index.js, up to the call of
  \<^verbatim>\<open>setTimeout\<close>.  \<^verbatim>\<open>webhookEvent.sender.id\<close> throws a TypeError when the event has no
  \<^verbatim>\<open>sender\<close>; an exception leaves the loop.
\<close>

definition handle_entry ::
  "configuration \<Rightarrow> conversation list \<Rightarrow> entry \<Rightarrow> entry_env
     \<Rightarrow> (js_error + unit) \<times> conversation list \<times> effect list" where
  "handle_entry cfg conversations entry env =
     (case first_event entry of
        None \<Rightarrow> (Inr (), conversations, [])
      | Some webhookEvent \<Rightarrow>
          (case ev_message webhookEvent of
             None \<Rightarrow> (Inr (), conversations, [])
           | Some msg \<Rightarrow>
               (case ev_sender webhookEvent of
                  None \<Rightarrow> (Inl TypeError, conversations, [])
                | Some sndr \<Rightarrow>
                    (let senderId = s_id sndr; messageText = mo_text msg
                     in if truthy messageText then
                          (case addMessageToConversation (e_reads env) conversations senderId None
                                  (the messageText) ''user'' of
                             Inl e \<Rightarrow> (Inl e, conversations, [])
                           | Inr (conversation, conversations') \<Rightarrow>
                               (case sendMessageToLLM cfg (e_llm env) (the messageText)
                                       (slice 0 (- 1) (c_messages conversation)) of
                                  (rq, Inl e) \<Rightarrow> (Inl e, conversations', [LLMRequest rq])
                                | (rq, Inr llmResponse) \<Rightarrow>
                                    (Inr (), conversations',
                                     [LLMRequest rq,
                                      SetTimeout senderId (finalResponse cfg llmResponse)])))
                        else (Inr (), conversations, [])))))"

fun handle_entries ::
  "configuration \<Rightarrow> conversation list \<Rightarrow> (entry \<times> entry_env) list
     \<Rightarrow> (js_error + unit) \<times> conversation list \<times> effect list" where
  "handle_entries cfg conversations [] = (Inr (), conversations, [])"
| "handle_entries cfg conversations ((entry, env) # rest) =
     (case handle_entry cfg conversations entry env of
        (Inl e, conversations', effects) \<Rightarrow> (Inl e, conversations', effects)
      | (Inr u, conversations', effects) \<Rightarrow>
          (case handle_entries cfg conversations' rest of
             (r, conversations'', effects') \<Rightarrow> (r, conversations'', effects @ effects')))"

text \<open>
  \<^verbatim>\<open>app.post("/webhook")\<close> of src/index.js: no signature check; an exception anywhere is
  caught and answered with 500.
\<close>

definition post_webhook ::
  "configuration \<Rightarrow> conversation list \<Rightarrow> webhook_request
     \<Rightarrow> response \<times> conversation list \<times> effect list" where
  "post_webhook cfg conversations req =
     (let body = req_body req
      in if body_object body = Some ''instagram'' then
           (case handle_entries cfg conversations
                   (case body_entry body of None \<Rightarrow> [] | Some es \<Rightarrow> es) of
              (Inl e, conversations', effects) \<Rightarrow>
                (Send 500 (Some ''Internal server error''), conversations', effects)
            | (Inr u, conversations', effects) \<Rightarrow>
                (Send 200 (Some ''EVENT_RECEIVED''), conversations', effects))
         else (Send 200 (Some ''EVENT_RECEIVED''), conversations, []))"

text \<open>
  The callback of \<^verbatim>\<open>body.entry?.forEach\<close> in src/unnamed/part_000.  It is asynchronous:
  an exception rejects the promise of this entry, which nobody awaits, and the other
  entries still run.  The store is changed before the first \<^verbatim>\<open>await\<close>, so the appends
  happen in the order of the entries, before the handler answers.
\<close>

definition handle_entry_part0 ::
  "configuration \<Rightarrow> conversation list \<Rightarrow> entry \<Rightarrow> entry_env
     \<Rightarrow> conversation list \<times> effect list" where
  "handle_entry_part0 cfg conversations entry env =
     (case first_event entry of
        None \<Rightarrow> (conversations, [])
      | Some webhookEvent \<Rightarrow>
          (case ev_message webhookEvent of
             None \<Rightarrow> (conversations, [])
           | Some msg \<Rightarrow>
               (case ev_sender webhookEvent of
                  None \<Rightarrow> (conversations, [UnhandledRejection TypeError])
                | Some sndr \<Rightarrow>
                    (let senderId = s_id sndr; messageText = mo_text msg
                     in if truthy messageText then
                          (case addMessageToConversation (e_reads env) conversations senderId None
                                  (the messageText) ''user'' of
                             Inl e \<Rightarrow> (conversations, [UnhandledRejection e])
                           | Inr (conversation, conversations') \<Rightarrow>
                               (case sendMessageToLLM_part0 cfg (e_llm env) (the messageText)
                                       (slice 0 (- 1) (c_messages conversation)) of
                                  (rq, Inl e) \<Rightarrow>
                                    (conversations', [LLMRequest rq, UnhandledRejection e])
                                | (rq, Inr llmResponse) \<Rightarrow>
                                    (conversations',
                                     [LLMRequest rq,
                                      SetTimeout senderId (finalResponse_part0 cfg llmResponse)])))
                        else (conversations, [])))))"

fun forEach_entry ::
  "configuration \<Rightarrow> conversation list \<Rightarrow> (entry \<times> entry_env) list
     \<Rightarrow> conversation list \<times> effect list" where
  "forEach_entry cfg conversations [] = (conversations, [])"
| "forEach_entry cfg conversations ((entry, env) # rest) =
     (case handle_entry_part0 cfg conversations entry env of
        (conversations', effects) \<Rightarrow>
          (case forEach_entry cfg conversations' rest of
             (conversations'', effects') \<Rightarrow> (conversations'', effects @ effects')))"

text \<open>
  \<^verbatim>\<open>app.post("/webhook")\<close> of src/unnamed/part_000: the signature is checked first.  An
  exception of \<^verbatim>\<open>verifyWebhookSignature\<close> is caught by the handler's \<^verbatim>\<open>try\<close> and
  answered with 500.
\<close>

definition post_webhook_part0 ::
  "(string \<Rightarrow> string \<Rightarrow> string) \<Rightarrow> string option \<Rightarrow> configuration \<Rightarrow> conversation list
     \<Rightarrow> webhook_request \<Rightarrow> response \<times> conversation list \<times> effect list" where
  "post_webhook_part0 hmac secret cfg conversations req =
     (case verifyWebhookSignature hmac secret (req_payload req) (req_signature req) of
        Inl e \<Rightarrow> (Send 500 (Some ''Internal server error''), conversations, [])
      | Inr False \<Rightarrow> (Send 403 (Some ''Invalid signature''), conversations, [])
      | Inr True \<Rightarrow>
          (let body = req_body req
           in if body_object body = Some ''instagram'' then
                (case forEach_entry cfg conversations
                        (case body_entry body of None \<Rightarrow> [] | Some es \<Rightarrow> es) of
                   (conversations', effects) \<Rightarrow>
                     (Send 200 (Some ''EVENT_RECEIVED''), conversations', effects))
              else (Send 200 (Some ''EVENT_RECEIVED''), conversations, [])))"

section \<open>Properties of the library operations\<close>

lemma findIndex_None: "(findIndex P xs = None) = (\<forall>x\<in>set xs. \<not> P x)"
  by (induction xs) auto

lemma findIndex_Some:
  "findIndex P xs = Some i \<Longrightarrow> i < length xs \<and> P (xs ! i) \<and> (\<forall>j<i. \<not> P (xs ! j))"
proof (induction xs arbitrary: i)
  case Nil
  then show ?case by simp
next
  case (Cons x xs)
  show ?case
  proof (cases "P x")
    case True
    with Cons.prems show ?thesis by simp
  next
    case False
    with Cons.prems obtain k where k: "findIndex P xs = Some k" "i = Suc k" by auto
    from Cons.IH[OF k(1)] False k(2) show ?thesis
      by (auto simp: less_Suc_eq_0_disj)
  qed
qed

lemma mset_sort_insert: "mset (sort_insert f x ys) = add_mset x (mset ys)"
  by (induction ys) auto

lemma mset_array_sort: "mset (array_sort f xs) = mset xs"
  by (induction xs) (auto simp: array_sort_def mset_sort_insert)

lemma set_sort_insert: "set (sort_insert f x ys) = insert x (set ys)"
  by (induction ys) auto

lemma sorted_sort_insert:
  "sorted_wrt (\<lambda>a b. c_lastActivity b \<le> c_lastActivity a) ys \<Longrightarrow>
   sorted_wrt (\<lambda>a b. c_lastActivity b \<le> c_lastActivity a) (sort_insert by_lastActivity x ys)"
  by (induction ys) (auto simp: set_sort_insert by_lastActivity_def)

lemma sorted_array_sort:
  "sorted_wrt (\<lambda>a b. c_lastActivity b \<le> c_lastActivity a) (array_sort by_lastActivity xs)"
proof (induction xs)
  case Nil
  then show ?case by (simp add: array_sort_def)
next
  case (Cons x xs)
  then show ?case using sorted_sort_insert[of "array_sort by_lastActivity xs" x]
    by (simp add: array_sort_def)
qed

section \<open>The signature verifier\<close>

text \<open>
  With a header present, the verifier is \<^verbatim>\<open>timingSafeEqual\<close> on the two encodings: it
  throws when their lengths differ and compares them otherwise.
\<close>

lemma verifyWebhookSignature_present:
  "verifyWebhookSignature hmac secret payload (Some s) =
     timingSafeEqual (concat (map utf8_char s))
       (concat (map utf8_char
          (''sha256='' @ hmac (if truthy secret then the secret else ''default_secret'') payload)))"
  by (simp add: verifyWebhookSignature_def Buffer_from_def Let_def)

lemma verifyWebhookSignature_length_mismatch:
  "length (concat (map utf8_char s)) \<noteq>
     length (concat (map utf8_char
        (''sha256='' @ hmac (if truthy secret then the secret else ''default_secret'') payload)))
   \<Longrightarrow> verifyWebhookSignature hmac secret payload (Some s) = Inl RangeError"
  by (simp add: verifyWebhookSignature_present timingSafeEqual_def)

text \<open>
  Claim C2 says that the verifier returns a boolean for every payload, header and secret,
  and \<^verbatim>\<open>false\<close> when the header is absent.  With the header absent
  \<^verbatim>\<open>Buffer.from(undefined)\<close> throws, so the verifier throws a TypeError, whatever the
  payload, the secret and the keyed hash are.
\<close>

theorem verifyWebhookSignature_absent_header_throws:
  "verifyWebhookSignature hmac secret payload None = Inl TypeError"
  by (simp add: verifyWebhookSignature_def Buffer_from_def)

section \<open>Webhook delivery and the signature\<close>

text \<open>
  The handler of src/unnamed/part_000 leaves the store alone and does nothing unless the
  verifier returns \<^verbatim>\<open>true\<close>; the handler of src/index.js never looks at the header.
\<close>

lemma post_webhook_part0_unverified:
  "verifyWebhookSignature hmac secret (req_payload req) (req_signature req) \<noteq> Inr True \<Longrightarrow>
   snd (post_webhook_part0 hmac secret cfg conversations req) = (conversations, [])"
  by (auto simp: post_webhook_part0_def split: sum.splits bool.splits)

lemma post_webhook_part0_mismatch:
  "verifyWebhookSignature hmac secret (req_payload req) (req_signature req) = Inr False \<Longrightarrow>
   post_webhook_part0 hmac secret cfg conversations req =
     (Send 403 (Some ''Invalid signature''), conversations, [])"
  by (simp add: post_webhook_part0_def)

lemma post_webhook_ignores_signature:
  "post_webhook cfg conversations (req\<lparr>req_signature := signature\<rparr>) =
   post_webhook cfg conversations req"
  by (simp add: post_webhook_def)

text \<open>
  With a signature the verifier accepts, the handler of src/unnamed/part_000 goes on to
  the entries.  The handler of src/index.js processes a delivery that carries no signature
  at all: the message is stored, the completion is requested and the reply is scheduled.
\<close>

lemma post_webhook_part0_verified:
  "verifyWebhookSignature hmac secret (req_payload req) (req_signature req) = Inr True \<Longrightarrow>
   post_webhook_part0 hmac secret cfg conversations req =
     (if body_object (req_body req) = Some ''instagram''
      then (Send 200 (Some ''EVENT_RECEIVED''),
            forEach_entry cfg conversations
              (case body_entry (req_body req) of None \<Rightarrow> [] | Some es \<Rightarrow> es))
      else (Send 200 (Some ''EVENT_RECEIVED''), conversations, []))"
  by (simp add: post_webhook_part0_def Let_def split: prod.splits)

lemma post_webhook_unsigned_delivery:
  "post_webhook
     \<lparr>instagram_verifyToken = ''myverifytoken'', gpt_endpoint = ''https://llm.example/v1'',
      gpt_model = ''gpt-3.5-turbo'', gpt_prompt = ''You are a professional appointment setter.'',
      booking_calendlyUrl = ''https://cal.example/me''\<rparr>
     []
     \<lparr>req_signature = None, req_payload = '''',
      req_body = \<lparr>body_object = Some ''instagram'',
        body_entry = Some [(\<lparr>messaging = Some [\<lparr>ev_sender = Some \<lparr>s_id = Some ''1000000001''\<rparr>,
                                ev_message = Some \<lparr>mo_text = Some ''Hi, I need help''\<rparr>\<rparr>]\<rparr>,
                            \<lparr>e_reads = \<lparr>r_conversation_id = ''c-1'', r_createdAt = 1000,
                                         r_lastActivity_created = 1000, r_message_id = ''m-1'',
                                         r_timestamp = 1000, r_lastActivity = 1000\<rparr>,
                             e_llm = Inr ''Book here: {BOOKING_URL}''\<rparr>)]\<rparr>\<rparr>
   = (Send 200 (Some ''EVENT_RECEIVED''),
      [\<lparr>c_id = ''c-1'', c_userId = Some ''1000000001'', c_username = ''user_000001'',
        c_messages = [\<lparr>m_id = ''m-1'', m_text = ''Hi, I need help'', m_sender = ''user'',
                        m_timestamp = 1000\<rparr>],
        c_status = ''active'', c_createdAt = 1000, c_lastActivity = 1000\<rparr>],
      [LLMRequest
         \<lparr>rq_endpoint = ''https://llm.example/v1'', rq_model = ''gpt-3.5-turbo'',
          rq_messages =
            [\<lparr>cm_role = ''system'', cm_content = ''You are a professional appointment setter.''\<rparr>,
             \<lparr>cm_role = ''user'', cm_content = ''Hi, I need help''\<rparr>],
          rq_max_tokens = 150\<rparr>,
       SetTimeout (Some ''1000000001'') ''Book here: https://cal.example/me''])"
  by (simp add: post_webhook_def handle_entry_def first_event_def truthy_def
      addMessageToConversation_def find_or_create_def new_username_def Let_def
      slice_from_def slice_def relative_index_def
      sendMessageToLLM_def sendMessageToOpenAI_def openai_request_def openai_messages_def
      trim_def is_space_def finalResponse_def replace_def)

text \<open>
  Claim C1 says that a delivery whose signature header is missing is rejected with
  status 403.  In src/unnamed/part_000 the verifier throws on the missing header, the
  handler's \<^verbatim>\<open>catch\<close> takes over, and the answer is 500; the store is unchanged and
  nothing else is done.
\<close>

theorem post_webhook_part0_absent_header:
  "post_webhook_part0 hmac secret cfg conversations
     \<lparr>req_signature = None, req_payload = payload, req_body = body\<rparr> =
   (Send 500 (Some ''Internal server error''), conversations, [])"
  by (simp add: post_webhook_part0_def verifyWebhookSignature_def Buffer_from_def)

section \<open>Webhook verification\<close>

text \<open>
  Claim C3 says that the answer is 200 or 403 whenever both \<^verbatim>\<open>hub.mode\<close> and
  \<^verbatim>\<open>hub.verify_token\<close> are present.  The handler tests the two for truthiness, and the
  empty string is falsy: with \<^verbatim>\<open>hub.mode\<close> present and empty the answer is 400.
\<close>

theorem get_webhook_empty_mode:
  "get_webhook
     \<lparr>instagram_verifyToken = ''myverifytoken'', gpt_endpoint = '''', gpt_model = '''',
      gpt_prompt = '''', booking_calendlyUrl = ''''\<rparr>
     \<lparr>hub_mode = Some '''', hub_verify_token = Some ''myverifytoken'',
      hub_challenge = Some ''1158201444''\<rparr>
   = SendStatus 400"
  by (simp add: get_webhook_def truthy_def)

text \<open>
  Claim C3 as amended: when \<^verbatim>\<open>hub.mode\<close> and \<^verbatim>\<open>hub.verify_token\<close> are both present and
  not empty, the answer is 200 with the value of \<^verbatim>\<open>hub.challenge\<close> as its body if and
  only if the mode is \<^verbatim>\<open>subscribe\<close> and the token is the configured verify token, and
  403 otherwise; when one of the two is absent or empty, the answer is 400.
\<close>

theorem get_webhook_verification:
  "(\<forall>m t. hub_mode query = Some m \<and> hub_verify_token query = Some t \<and> m \<noteq> [] \<and> t \<noteq> [] \<longrightarrow>
      ((get_webhook cfg query = Send 200 (hub_challenge query)) =
         (m = ''subscribe'' \<and> t = instagram_verifyToken cfg)) \<and>
      (\<not> (m = ''subscribe'' \<and> t = instagram_verifyToken cfg) \<longrightarrow>
         get_webhook cfg query = SendStatus 403)) \<and>
   (hub_mode query \<in> {None, Some []} \<or> hub_verify_token query \<in> {None, Some []} \<longrightarrow>
      get_webhook cfg query = SendStatus 400)"
  by (auto simp: get_webhook_def truthy_def Let_def split: option.splits)

theorem get_webhook_verification_witness:
  "get_webhook
     \<lparr>instagram_verifyToken = ''myverifytoken'', gpt_endpoint = '''', gpt_model = '''',
      gpt_prompt = '''', booking_calendlyUrl = ''''\<rparr>
     \<lparr>hub_mode = Some ''subscribe'', hub_verify_token = Some ''myverifytoken'',
      hub_challenge = Some ''1158201444''\<rparr>
     = Send 200 (Some ''1158201444'') \<and>
   get_webhook
     \<lparr>instagram_verifyToken = ''myverifytoken'', gpt_endpoint = '''', gpt_model = '''',
      gpt_prompt = '''', booking_calendlyUrl = ''''\<rparr>
     \<lparr>hub_mode = Some ''subscribe'', hub_verify_token = Some ''guess'',
      hub_challenge = Some ''1158201444''\<rparr>
     = SendStatus 403 \<and>
   get_webhook
     \<lparr>instagram_verifyToken = ''myverifytoken'', gpt_endpoint = '''', gpt_model = '''',
      gpt_prompt = '''', booking_calendlyUrl = ''''\<rparr>
     \<lparr>hub_mode = None, hub_verify_token = Some ''myverifytoken'',
      hub_challenge = Some ''1158201444''\<rparr>
     = SendStatus 400"
  using
    get_webhook_verification
      [of "\<lparr>hub_mode = Some ''subscribe'', hub_verify_token = Some ''myverifytoken'',
             hub_challenge = Some ''1158201444''\<rparr>"
          "\<lparr>instagram_verifyToken = ''myverifytoken'', gpt_endpoint = '''', gpt_model = '''',
             gpt_prompt = '''', booking_calendlyUrl = ''''\<rparr>"]
    get_webhook_verification
      [of "\<lparr>hub_mode = Some ''subscribe'', hub_verify_token = Some ''guess'',
             hub_challenge = Some ''1158201444''\<rparr>"
          "\<lparr>instagram_verifyToken = ''myverifytoken'', gpt_endpoint = '''', gpt_model = '''',
             gpt_prompt = '''', booking_calendlyUrl = ''''\<rparr>"]
    get_webhook_verification
      [of "\<lparr>hub_mode = None, hub_verify_token = Some ''myverifytoken'',
             hub_challenge = Some ''1158201444''\<rparr>"
          "\<lparr>instagram_verifyToken = ''myverifytoken'', gpt_endpoint = '''', gpt_model = '''',
             gpt_prompt = '''', booking_calendlyUrl = ''''\<rparr>"]
  by simp

section \<open>Conversation listing\<close>

text \<open>
  Claim C8: for every state of the store, the listing returns all conversations (the same
  conversations, each as often as the store holds it) sorted by \<open>lastActivity\<close>
  descending: of two conversations in the result, the one with the greater
  \<open>lastActivity\<close> stands before the other.  The sorted array is also the new content of
  the store.
\<close>

theorem get_conversations_sorted:
  "mset (fst (get_conversations conversations)) = mset conversations \<and>
   snd (get_conversations conversations) = fst (get_conversations conversations) \<and>
   sorted_wrt (\<lambda>a b. c_lastActivity b \<le> c_lastActivity a) (fst (get_conversations conversations)) \<and>
   (\<forall>i j. i < length (fst (get_conversations conversations)) \<and>
          j < length (fst (get_conversations conversations)) \<and>
          c_lastActivity (fst (get_conversations conversations) ! i)
            < c_lastActivity (fst (get_conversations conversations) ! j) \<longrightarrow> j < i)"
proof -
  let ?r = "fst (get_conversations conversations)"
  have r: "?r = array_sort by_lastActivity conversations"
    by (simp add: get_conversations_def Let_def)
  have s: "sorted_wrt (\<lambda>a b. c_lastActivity b \<le> c_lastActivity a) ?r"
    unfolding r by (rule sorted_array_sort)
  have "j < i" if "i < length ?r" "j < length ?r"
    "c_lastActivity (?r ! i) < c_lastActivity (?r ! j)" for i j
  proof (rule ccontr)
    assume "\<not> j < i"
    then have "i < j \<or> i = j" by arith
    then show False
    proof
      assume "i < j"
      with s that(2) have "c_lastActivity (?r ! j) \<le> c_lastActivity (?r ! i)"
        by (simp add: sorted_wrt_iff_nth_less)
      with that(3) show False by simp
    next
      assume "i = j" with that(3) show False by simp
    qed
  qed
  then show ?thesis using s
    by (simp add: r mset_array_sort get_conversations_def Let_def)
qed

section \<open>The conversation store\<close>

lemma distinct_map_nth_eq:
  "distinct (map f xs) \<Longrightarrow> i < length xs \<Longrightarrow> j < length xs \<Longrightarrow> f (xs ! i) = f (xs ! j) \<Longrightarrow> i = j"
  by (metis distinct_conv_nth length_map nth_map)

lemma addMessageToConversation_found:
  assumes "findIndex (\<lambda>c. c_userId c = userId) conversations = Some i"
  shows "addMessageToConversation r conversations userId username message sender =
     Inr ((conversations ! i)\<lparr>c_messages := c_messages (conversations ! i) @
              [\<lparr>m_id = r_message_id r, m_text = message, m_sender = sender, m_timestamp = r_timestamp r\<rparr>],
            c_lastActivity := r_lastActivity r\<rparr>,
          conversations[i := (conversations ! i)\<lparr>c_messages := c_messages (conversations ! i) @
              [\<lparr>m_id = r_message_id r, m_text = message, m_sender = sender, m_timestamp = r_timestamp r\<rparr>],
            c_lastActivity := r_lastActivity r\<rparr>])"
  using assms by (simp add: addMessageToConversation_def find_or_create_def Let_def)

lemma addMessageToConversation_new:
  assumes "findIndex (\<lambda>c. c_userId c = userId) conversations = None"
    and "new_username userId username = Inr name"
  shows "addMessageToConversation r conversations userId username message sender =
     Inr (\<lparr>c_id = r_conversation_id r, c_userId = userId, c_username = name,
            c_messages = [\<lparr>m_id = r_message_id r, m_text = message, m_sender = sender, m_timestamp = r_timestamp r\<rparr>],
            c_status = ''active'', c_createdAt = r_createdAt r, c_lastActivity = r_lastActivity r\<rparr>,
          conversations @ [\<lparr>c_id = r_conversation_id r, c_userId = userId, c_username = name,
            c_messages = [\<lparr>m_id = r_message_id r, m_text = message, m_sender = sender, m_timestamp = r_timestamp r\<rparr>],
            c_status = ''active'', c_createdAt = r_createdAt r, c_lastActivity = r_lastActivity r\<rparr>])"
  using assms by (simp add: addMessageToConversation_def find_or_create_def Let_def)

lemma addMessageToConversation_throws:
  assumes "findIndex (\<lambda>c. c_userId c = userId) conversations = None"
    and "new_username userId username = Inl e"
  shows "addMessageToConversation r conversations userId username message sender = Inl e"
  using assms by (simp add: addMessageToConversation_def find_or_create_def Let_def)

lemma addMessageToConversation_distinct:
  assumes "distinct (map c_userId conversations)"
    and "addMessageToConversation r conversations userId username message sender = Inr (c, conversations')"
  shows "distinct (map c_userId conversations')"
proof (cases "findIndex (\<lambda>c. c_userId c = userId) conversations")
  case None
  then have notin: "userId \<notin> set (map c_userId conversations)"
    by (auto simp: findIndex_None)
  from None assms(2) obtain name where "new_username userId username = Inr name"
    by (cases "new_username userId username") (auto simp: addMessageToConversation_throws)
  from addMessageToConversation_new[OF None this] assms(2) have "conversations' = conversations @ [c]" "c_userId c = userId"
    by auto
  with assms(1) notin show ?thesis by simp
next
  case (Some i)
  from findIndex_Some[OF Some] have i: "i < length conversations" by simp
  from addMessageToConversation_found[OF Some] assms(2)
  have "conversations' = conversations[i := c]" "c_userId c = c_userId (conversations ! i)"
    by auto
  then have "map c_userId conversations' = map c_userId conversations"
    using i by (simp add: map_update list_update_same_conv)
  with assms(1) show ?thesis by simp
qed

lemma apply_op_distinct:
  "distinct (map c_userId conversations) \<Longrightarrow> distinct (map c_userId (apply_op conversations op))"
proof (cases op)
  case (AddMessage r userId username message sender)
  assume d: "distinct (map c_userId conversations)"
  show ?thesis
  proof (cases "addMessageToConversation r conversations userId username message sender")
    case (Inl e)
    with d AddMessage show ?thesis by simp
  next
    case (Inr p)
    obtain c cs where "p = (c, cs)" by (cases p)
    with Inr d AddMessage addMessageToConversation_distinct[of conversations r userId username message sender c cs]
    show ?thesis by simp
  qed
next
  case ListConversations
  assume d: "distinct (map c_userId conversations)"
  have "mset (map c_userId (array_sort by_lastActivity conversations)) = mset (map c_userId conversations)"
    by (simp add: mset_array_sort)
  then have "distinct (map c_userId (array_sort by_lastActivity conversations))"
    using d by (metis mset_eq_imp_distinct_iff)
  with ListConversations show ?thesis by (simp add: get_conversations_def Let_def)
qed

lemma foldl_apply_op_distinct:
  "distinct (map c_userId conversations) \<Longrightarrow> distinct (map c_userId (foldl apply_op conversations ops))"
  by (induction ops arbitrary: conversations) (auto simp: apply_op_distinct)

lemma store_after_distinct: "distinct (map c_userId (store_after ops))"
  by (simp add: store_after_def foldl_apply_op_distinct)



text \<open>
  Claim C4 says that the call sets \<open>lastActivity\<close> to the time stamp of the message it
  appends.  The two are separate readings of the clock (\<^verbatim>\<open>timestamp: new Date()\<close>, then
  \<^verbatim>\<open>conversation.lastActivity = new Date()\<close>); when the clock advances between them, here
  from 1000 to 1001, they differ.
\<close>

theorem addMessageToConversation_lastActivity_later:
  "addMessageToConversation
     \<lparr>r_conversation_id = ''c-1'', r_createdAt = 999, r_lastActivity_created = 999,
      r_message_id = ''m-1'', r_timestamp = 1000, r_lastActivity = 1001\<rparr>
     [] (Some ''1000000001'') None ''Hi, I need help'' ''user''
   = Inr (\<lparr>c_id = ''c-1'', c_userId = Some ''1000000001'', c_username = ''user_000001'',
            c_messages = [\<lparr>m_id = ''m-1'', m_text = ''Hi, I need help'', m_sender = ''user'',
                            m_timestamp = 1000\<rparr>],
            c_status = ''active'', c_createdAt = 999, c_lastActivity = 1001\<rparr>,
          [\<lparr>c_id = ''c-1'', c_userId = Some ''1000000001'', c_username = ''user_000001'',
            c_messages = [\<lparr>m_id = ''m-1'', m_text = ''Hi, I need help'', m_sender = ''user'',
                            m_timestamp = 1000\<rparr>],
            c_status = ''active'', c_createdAt = 999, c_lastActivity = 1001\<rparr>])"
  by (simp add: addMessageToConversation_def find_or_create_def new_username_def truthy_def
      slice_from_def slice_def relative_index_def Let_def)

text \<open>
  Claim C4 as amended.  Let the store be what any sequence of calls has left.  It holds no
  two conversations with the same \<open>userId\<close>, and for every \<open>userId\<close> that is a string the
  call returns a conversation with that \<open>userId\<close>: the one the store holds for it, or a new
  one pushed at the end when the store holds none.  The conversation returned is the one
  in the new store; its messages are the messages it had (none when new) followed by
  exactly one new message with the given text and sender, whose time stamp is the clock
  reading taken for it; its \<open>lastActivity\<close> is the next clock reading, taken after the
  append (the time stamp of the message when the clock has not advanced in between).
  The new store again holds no two conversations with the same \<open>userId\<close>.
\<close>

theorem addMessageToConversation_appends:
  assumes "conversations = store_after ops"
  shows
  "distinct (map c_userId conversations) \<and>
   (\<exists>conversation conversations'.
      addMessageToConversation r conversations (Some u) username message sender =
        Inr (conversation, conversations') \<and>
      c_userId conversation = Some u \<and>
      last (c_messages conversation) =
        \<lparr>m_id = r_message_id r, m_text = message, m_sender = sender,
         m_timestamp = r_timestamp r\<rparr> \<and>
      c_lastActivity conversation = r_lastActivity r \<and>
      (\<forall>i<length conversations. c_userId (conversations ! i) = Some u \<longrightarrow>
         c_messages conversation = c_messages (conversations ! i) @ [last (c_messages conversation)] \<and>
         conversation = (conversations ! i)
           \<lparr>c_messages := c_messages conversation, c_lastActivity := r_lastActivity r\<rparr> \<and>
         conversations' = conversations[i := conversation]) \<and>
      ((\<forall>c\<in>set conversations. c_userId c \<noteq> Some u) \<longrightarrow>
         c_messages conversation = [last (c_messages conversation)] \<and>
         conversations' = conversations @ [conversation]) \<and>
      distinct (map c_userId conversations'))"
proof -
  let ?m = "\<lparr>m_id = r_message_id r, m_text = message, m_sender = sender, m_timestamp = r_timestamp r\<rparr>"
  have d: "distinct (map c_userId conversations)"
    using assms by (simp add: store_after_distinct)
  have "\<exists>conversation conversations'.
      addMessageToConversation r conversations (Some u) username message sender =
        Inr (conversation, conversations') \<and>
      c_userId conversation = Some u \<and>
      last (c_messages conversation) = ?m \<and>
      c_lastActivity conversation = r_lastActivity r \<and>
      (\<forall>i<length conversations. c_userId (conversations ! i) = Some u \<longrightarrow>
         c_messages conversation = c_messages (conversations ! i) @ [last (c_messages conversation)] \<and>
         conversation = (conversations ! i)
           \<lparr>c_messages := c_messages conversation, c_lastActivity := r_lastActivity r\<rparr> \<and>
         conversations' = conversations[i := conversation]) \<and>
      ((\<forall>c\<in>set conversations. c_userId c \<noteq> Some u) \<longrightarrow>
         c_messages conversation = [last (c_messages conversation)] \<and>
         conversations' = conversations @ [conversation]) \<and>
      distinct (map c_userId conversations')"
  proof (cases "findIndex (\<lambda>c. c_userId c = Some u) conversations")
    case None
    obtain name where n: "new_username (Some u) username = Inr name"
      by (cases "truthy username") (auto simp: new_username_def)
    define c where "c = \<lparr>c_id = r_conversation_id r, c_userId = Some u, c_username = name,
            c_messages = [?m], c_status = ''active'', c_createdAt = r_createdAt r,
            c_lastActivity = r_lastActivity r\<rparr>"
    have a: "addMessageToConversation r conversations (Some u) username message sender =
        Inr (c, conversations @ [c])"
      unfolding c_def by (rule addMessageToConversation_new[OF None n])
    have no: "\<forall>i<length conversations. c_userId (conversations ! i) = Some u \<longrightarrow>
         c_messages c = c_messages (conversations ! i) @ [last (c_messages c)] \<and>
         c = (conversations ! i)\<lparr>c_messages := c_messages c, c_lastActivity := r_lastActivity r\<rparr> \<and>
         conversations @ [c] = conversations[i := c]"
      using None by (simp add: findIndex_None)
    have d': "distinct (map c_userId (conversations @ [c]))"
      by (rule addMessageToConversation_distinct[OF d a])
    have f: "c_userId c = Some u" "last (c_messages c) = ?m" "c_lastActivity c = r_lastActivity r"
      "c_messages c = [last (c_messages c)]"
      by (simp_all add: c_def)
    show ?thesis
      apply (rule exI[of _ c])
      apply (rule exI[of _ "conversations @ [c]"])
      using a no d' f by blast
  next
    case (Some k)
    from findIndex_Some[OF Some] have k: "k < length conversations"
      "c_userId (conversations ! k) = Some u" by simp_all
    define c where "c = (conversations ! k)\<lparr>c_messages := c_messages (conversations ! k) @ [?m],
            c_lastActivity := r_lastActivity r\<rparr>"
    have a: "addMessageToConversation r conversations (Some u) username message sender =
        Inr (c, conversations[k := c])"
      unfolding c_def by (rule addMessageToConversation_found[OF Some])
    have uniq: "i = k" if "i < length conversations" "c_userId (conversations ! i) = Some u" for i
      using distinct_map_nth_eq[OF d that(1) k(1)] that(2) k(2) by simp
    have f: "c_userId c = Some u" "last (c_messages c) = ?m" "c_lastActivity c = r_lastActivity r"
      "c_messages c = c_messages (conversations ! k) @ [last (c_messages c)]"
      "c = (conversations ! k)\<lparr>c_messages := c_messages c, c_lastActivity := r_lastActivity r\<rparr>"
      using k(2) by (simp_all add: c_def)
    have found: "\<forall>i<length conversations. c_userId (conversations ! i) = Some u \<longrightarrow>
         c_messages c = c_messages (conversations ! i) @ [last (c_messages c)] \<and>
         c = (conversations ! i)\<lparr>c_messages := c_messages c, c_lastActivity := r_lastActivity r\<rparr> \<and>
         conversations[k := c] = conversations[i := c]"
      using uniq f(4,5) by blast
    have some: "\<not> (\<forall>c\<in>set conversations. c_userId c \<noteq> Some u)"
      using k by (metis nth_mem)
    have d': "distinct (map c_userId (conversations[k := c]))"
      by (rule addMessageToConversation_distinct[OF d a])
    show ?thesis
      apply (rule exI[of _ c])
      apply (rule exI[of _ "conversations[k := c]"])
      using a found some d' f(1,2,3) by blast
  qed
  with d show ?thesis by blast
qed

theorem addMessageToConversation_appends_witness:
  "addMessageToConversation
     \<lparr>r_conversation_id = ''c-2'', r_createdAt = 5000, r_lastActivity_created = 5000,
      r_message_id = ''m-2'', r_timestamp = 5000, r_lastActivity = 5000\<rparr>
     (store_after
        [AddMessage
           \<lparr>r_conversation_id = ''c-1'', r_createdAt = 999, r_lastActivity_created = 999,
            r_message_id = ''m-1'', r_timestamp = 1000, r_lastActivity = 1001\<rparr>
           (Some ''1000000001'') None ''Hi, I need help'' ''user''])
     (Some ''1000000001'') None ''Happy to help'' ''bot''
   = Inr (\<lparr>c_id = ''c-1'', c_userId = Some ''1000000001'', c_username = ''user_000001'',
            c_messages = [\<lparr>m_id = ''m-1'', m_text = ''Hi, I need help'', m_sender = ''user'',
                            m_timestamp = 1000\<rparr>,
                          \<lparr>m_id = ''m-2'', m_text = ''Happy to help'', m_sender = ''bot'',
                            m_timestamp = 5000\<rparr>],
            c_status = ''active'', c_createdAt = 999, c_lastActivity = 5000\<rparr>,
          [\<lparr>c_id = ''c-1'', c_userId = Some ''1000000001'', c_username = ''user_000001'',
            c_messages = [\<lparr>m_id = ''m-1'', m_text = ''Hi, I need help'', m_sender = ''user'',
                            m_timestamp = 1000\<rparr>,
                          \<lparr>m_id = ''m-2'', m_text = ''Happy to help'', m_sender = ''bot'',
                            m_timestamp = 5000\<rparr>],
            c_status = ''active'', c_createdAt = 999, c_lastActivity = 5000\<rparr>])"
proof -
  have s: "store_after
        [AddMessage
           \<lparr>r_conversation_id = ''c-1'', r_createdAt = 999, r_lastActivity_created = 999,
            r_message_id = ''m-1'', r_timestamp = 1000, r_lastActivity = 1001\<rparr>
           (Some ''1000000001'') None ''Hi, I need help'' ''user'']
     = [\<lparr>c_id = ''c-1'', c_userId = Some ''1000000001'', c_username = ''user_000001'',
            c_messages = [\<lparr>m_id = ''m-1'', m_text = ''Hi, I need help'', m_sender = ''user'',
                            m_timestamp = 1000\<rparr>],
            c_status = ''active'', c_createdAt = 999, c_lastActivity = 1001\<rparr>]"
    by (simp add: store_after_def addMessageToConversation_def find_or_create_def
        new_username_def truthy_def slice_from_def slice_def relative_index_def Let_def)
  from addMessageToConversation_appends [OF refl,
      of "[AddMessage
           \<lparr>r_conversation_id = ''c-1'', r_createdAt = 999, r_lastActivity_created = 999,
            r_message_id = ''m-1'', r_timestamp = 1000, r_lastActivity = 1001\<rparr>
           (Some ''1000000001'') None ''Hi, I need help'' ''user'']"
         "\<lparr>r_conversation_id = ''c-2'', r_createdAt = 5000, r_lastActivity_created = 5000,
           r_message_id = ''m-2'', r_timestamp = 5000, r_lastActivity = 5000\<rparr>"
         "''1000000001''" None "''Happy to help''" "''bot''"]
  show ?thesis
    unfolding s
    by (simp add: addMessageToConversation_def find_or_create_def Let_def)
qed

text \<open>
  Claim C9: a conversation created without a supplied username (the argument is
  \<^verbatim>\<open>null\<close>, \<^verbatim>\<open>undefined\<close> or the empty string) for a \<open>userId\<close> the store does not hold gets
  the username \<^verbatim>\<open>user_\<close> followed by the last 6 characters of the \<open>userId\<close>: by the suffix
  of the \<open>userId\<close> of length 6, or by the whole \<open>userId\<close> when it is shorter.
\<close>

theorem addMessageToConversation_default_username:
  assumes "\<not> truthy username"
    and "\<forall>c\<in>set conversations. c_userId c \<noteq> Some u"
  shows "\<exists>conversation last6.
     addMessageToConversation r conversations (Some u) username message sender =
       Inr (conversation, conversations @ [conversation]) \<and>
     c_username conversation = ''user_'' @ last6 \<and>
     suffix last6 u \<and> length last6 = min 6 (length u)"
proof -
  have none: "findIndex (\<lambda>c. c_userId c = Some u) conversations = None"
    using assms(2) by (simp add: findIndex_None)
  have name: "new_username (Some u) username = Inr (''user_'' @ slice_from (- 6) u)"
    using assms(1) by (simp add: new_username_def)
  have suf: "suffix (slice_from (- 6) u) u \<and> length (slice_from (- 6) u) = min 6 (length u)"
    by (auto simp: slice_from_def slice_def relative_index_def Let_def suffix_drop)
  from addMessageToConversation_new[OF none name, of r message sender] suf
  show ?thesis by auto
qed

theorem addMessageToConversation_default_username_witness:
  "\<not> truthy None \<and>
   (\<exists>conversation.
      addMessageToConversation
        \<lparr>r_conversation_id = ''c-1'', r_createdAt = 999, r_lastActivity_created = 999,
         r_message_id = ''m-1'', r_timestamp = 1000, r_lastActivity = 1000\<rparr>
        [] (Some ''1000000001'') None ''Hi, I need help'' ''user''
        = Inr (conversation, [conversation]) \<and>
      c_username conversation = ''user_000001'')"
proof -
  have h1: "\<not> truthy None" by (simp add: truthy_def)
  have h2: "\<forall>c\<in>set ([] :: conversation list). c_userId c \<noteq> Some ''1000000001''" by simp
  from addMessageToConversation_default_username [OF h1 h2,
      of "\<lparr>r_conversation_id = ''c-1'', r_createdAt = 999, r_lastActivity_created = 999,
           r_message_id = ''m-1'', r_timestamp = 1000, r_lastActivity = 1000\<rparr>"
         "''Hi, I need help''" "''user''"]
  obtain conversation last6 where
    c: "addMessageToConversation
        \<lparr>r_conversation_id = ''c-1'', r_createdAt = 999, r_lastActivity_created = 999,
         r_message_id = ''m-1'', r_timestamp = 1000, r_lastActivity = 1000\<rparr>
        [] (Some ''1000000001'') None ''Hi, I need help'' ''user''
        = Inr (conversation, [] @ [conversation])"
    and n: "c_username conversation = ''user_'' @ last6"
    and s: "suffix last6 ''1000000001''" and l: "length last6 = min 6 (length ''1000000001'')"
    by blast
  from s l have "last6 = ''000001''"
    by (auto simp: suffix_def append_eq_Cons_conv Cons_eq_append_conv)
  with c n h1 show ?thesis by auto
qed

theorem get_conversations_sorted_witness:
  "fst (get_conversations
     [\<lparr>c_id = ''a'', c_userId = Some ''1000000001'', c_username = ''user_000001'',
       c_messages = [], c_status = ''active'', c_createdAt = 1000, c_lastActivity = 1000\<rparr>,
      \<lparr>c_id = ''b'', c_userId = Some ''1000000002'', c_username = ''user_000002'',
       c_messages = [], c_status = ''active'', c_createdAt = 1500, c_lastActivity = 2000\<rparr>])
   = [\<lparr>c_id = ''b'', c_userId = Some ''1000000002'', c_username = ''user_000002'',
       c_messages = [], c_status = ''active'', c_createdAt = 1500, c_lastActivity = 2000\<rparr>,
      \<lparr>c_id = ''a'', c_userId = Some ''1000000001'', c_username = ''user_000001'',
       c_messages = [], c_status = ''active'', c_createdAt = 1000, c_lastActivity = 1000\<rparr>]"
  using get_conversations_sorted
     [of "[\<lparr>c_id = ''a'', c_userId = Some ''1000000001'', c_username = ''user_000001'',
       c_messages = [], c_status = ''active'', c_createdAt = 1000, c_lastActivity = 1000\<rparr>,
      \<lparr>c_id = ''b'', c_userId = Some ''1000000002'', c_username = ''user_000002'',
       c_messages = [], c_status = ''active'', c_createdAt = 1500, c_lastActivity = 2000\<rparr>]"]
  by (simp add: get_conversations_def array_sort_def by_lastActivity_def Let_def)

section \<open>Placeholder substitution\<close>

lemma indexOf_Some:
  "indexOf s pat = Some n \<Longrightarrow>
     s = take n s @ pat @ drop (n + length pat) s \<and> (\<forall>k<n. \<not> prefix pat (drop k s))"
proof (induction s arbitrary: n)
  case Nil
  then show ?case by (simp split: if_splits)
next
  case (Cons c s)
  show ?case
  proof (cases "prefix pat (c # s)")
    case True
    with Cons.prems have "n = 0" by simp
    with True show ?thesis by (auto simp: prefix_def)
  next
    case False
    with Cons.prems obtain m where m: "indexOf s pat = Some m" "n = Suc m" by auto
    from Cons.IH[OF m(1)] have 1: "s = take m s @ pat @ drop (m + length pat) s"
      and 2: "\<forall>k<m. \<not> prefix pat (drop k s)" by simp_all
    have "\<not> prefix pat (drop k (c # s))" if "k < n" for k
      using that False 2 m(2) by (cases k) auto
    moreover have "c # s = take n (c # s) @ pat @ drop (n + length pat) (c # s)"
      using 1 m(2) by simp
    ultimately show ?thesis by blast
  qed
qed

lemma indexOf_None: "indexOf s pat = None \<Longrightarrow> \<forall>k\<le>length s. \<not> prefix pat (drop k s)"
proof (induction s)
  case Nil
  then show ?case by (simp split: if_splits)
next
  case (Cons c s)
  show ?case
  proof (intro allI impI)
    fix k assume "k \<le> length (c # s)"
    then show "\<not> prefix pat (drop k (c # s))"
      using Cons by (cases k) (auto split: if_splits)
  qed
qed

lemma GetSubstitution_plain:
  "CHR ''$'' \<notin> set v \<Longrightarrow> GetSubstitution m p f v = v"
  by (induction m p f v rule: GetSubstitution.induct) auto

text \<open>
  The two variants compute the same text.  A reply without the token is delivered
  unchanged.  When the booking link holds no dollar sign, the first occurrence of the
  token, and only this one, is replaced by the link; the example of the specification
  is such a case.
\<close>

lemma finalResponse_part0_eq: "finalResponse_part0 cfg r = finalResponse cfg r"
  by (simp add: finalResponse_part0_def finalResponse_def str_includes_def replace_def)

lemma finalResponse_absent:
  "\<not> str_includes llmResponse ''{BOOKING_URL}'' \<Longrightarrow> finalResponse cfg llmResponse = llmResponse"
  by (simp add: finalResponse_def str_includes_def replace_def)

lemma finalResponse_first_occurrence:
  assumes "indexOf llmResponse ''{BOOKING_URL}'' = Some n"
    and "CHR ''$'' \<notin> set (booking_calendlyUrl cfg)"
  shows "finalResponse cfg llmResponse =
     take n llmResponse @ booking_calendlyUrl cfg
       @ drop (n + length ''{BOOKING_URL}'') llmResponse"
  using assms by (simp add: finalResponse_def replace_def Let_def GetSubstitution_plain)

lemma finalResponse_example:
  "finalResponse
     \<lparr>instagram_verifyToken = ''myverifytoken'', gpt_endpoint = '''', gpt_model = '''',
      gpt_prompt = '''', booking_calendlyUrl = ''https://cal.example/me''\<rparr>
     ''Book here: {BOOKING_URL}'' = ''Book here: https://cal.example/me''"
  by (simp add: finalResponse_def replace_def Let_def)

text \<open>
  Claim C6 says that the delivered text is the reply with the token replaced by the
  configured booking link.  \<^verbatim>\<open>replace\<close> expands the dollar patterns of its second
  argument: in a link that holds \<^verbatim>\<open>$&\<close> (a query string with the value \<^verbatim>\<open>$\<close> followed by
  the next parameter) it puts the matched token back in place of the two characters.
\<close>

theorem finalResponse_dollar_pattern:
  "finalResponse
     \<lparr>instagram_verifyToken = ''myverifytoken'', gpt_endpoint = '''', gpt_model = '''',
      gpt_prompt = '''', booking_calendlyUrl = ''https://cal.example/me?currency=$&plan=pro''\<rparr>
     ''Book here: {BOOKING_URL}''
   = ''Book here: https://cal.example/me?currency={BOOKING_URL}plan=pro''"
  by (simp add: finalResponse_def replace_def Let_def)

text \<open>
  Claim C10 says that of two occurrences of the token the first is replaced by the
  configured booking link and the second stays.  The second stays; the text put in place
  of the first is the link with its dollar patterns expanded, here \<^verbatim>\<open>$$\<close> to \<^verbatim>\<open>$\<close>.
\<close>

theorem finalResponse_two_tokens_dollar_pattern:
  "finalResponse
     \<lparr>instagram_verifyToken = ''myverifytoken'', gpt_endpoint = '''', gpt_model = '''',
      gpt_prompt = '''', booking_calendlyUrl = ''https://cal.example/me?promo=$$5''\<rparr>
     ''{BOOKING_URL} or {BOOKING_URL}''
   = ''https://cal.example/me?promo=$5 or {BOOKING_URL}''"
  by (simp add: finalResponse_def replace_def Let_def)

section \<open>Events with missing fields\<close>

text \<open>
  An event without \<^verbatim>\<open>message\<close>, or whose \<^verbatim>\<open>message.text\<close> is absent or empty while its
  \<^verbatim>\<open>sender\<close> is present, is skipped: the store is unchanged, nothing is sent and nothing
  is scheduled.  An event with a \<^verbatim>\<open>message\<close> and without \<^verbatim>\<open>sender\<close>, or with a text and
  without \<^verbatim>\<open>sender.id\<close>, makes the loop body throw a TypeError.
\<close>

lemma handle_entry_no_message:
  "first_event entry = Some ev \<Longrightarrow> ev_message ev = None \<Longrightarrow>
   handle_entry cfg conversations entry env = (Inr (), conversations, [])"
  by (simp add: handle_entry_def)

lemma handle_entry_no_text:
  "first_event entry = Some ev \<Longrightarrow> ev_message ev = Some msg \<Longrightarrow> ev_sender ev = Some sndr \<Longrightarrow>
   \<not> truthy (mo_text msg) \<Longrightarrow>
   handle_entry cfg conversations entry env = (Inr (), conversations, [])"
  by (simp add: handle_entry_def)

lemma handle_entry_no_sender:
  "first_event entry = Some ev \<Longrightarrow> ev_message ev = Some msg \<Longrightarrow> ev_sender ev = None \<Longrightarrow>
   handle_entry cfg conversations entry env = (Inl TypeError, conversations, [])"
  by (simp add: handle_entry_def)

lemma handle_entry_no_sender_id:
  "first_event entry = Some ev \<Longrightarrow> ev_message ev = Some msg \<Longrightarrow> ev_sender ev = Some sndr \<Longrightarrow>
   s_id sndr = None \<Longrightarrow> truthy (mo_text msg) \<Longrightarrow> \<forall>c\<in>set conversations. c_userId c \<noteq> None \<Longrightarrow>
   handle_entry cfg conversations entry env = (Inl TypeError, conversations, [])"
  by (simp add: handle_entry_def addMessageToConversation_def find_or_create_def
      findIndex_None[THEN iffD2] new_username_def truthy_def)

lemma handle_entry_part0_no_sender:
  "first_event entry = Some ev \<Longrightarrow> ev_message ev = Some msg \<Longrightarrow> ev_sender ev = None \<Longrightarrow>
   handle_entry_part0 cfg conversations entry env =
     (conversations, [UnhandledRejection TypeError])"
  by (simp add: handle_entry_part0_def)

lemma post_webhook_event_without_sender_id:
  "post_webhook cfg []
     \<lparr>req_signature = signature, req_payload = payload,
      req_body = \<lparr>body_object = Some ''instagram'',
                  body_entry = Some ((\<lparr>messaging = Some [\<lparr>ev_sender = Some \<lparr>s_id = None\<rparr>,
                      ev_message = Some \<lparr>mo_text = Some ''Hi, I need help''\<rparr>\<rparr>]\<rparr>, env) # rest)\<rparr>\<rparr>
   = (Send 500 (Some ''Internal server error''), [], [])"
  by (simp add: post_webhook_def handle_entry_def first_event_def truthy_def
      addMessageToConversation_def find_or_create_def new_username_def)

text \<open>
  Claim C7 says that an event in which \<^verbatim>\<open>sender.id\<close> is absent is skipped silently and
  is not treated as an error.  In src/index.js a delivery whose first entry holds a
  message without \<^verbatim>\<open>sender\<close> is answered with 500, and the entries after it are not
  processed, whatever they are.
\<close>

theorem post_webhook_event_without_sender:
  "post_webhook cfg conversations
     \<lparr>req_signature = signature, req_payload = payload,
      req_body = \<lparr>body_object = Some ''instagram'',
                  body_entry = Some ((\<lparr>messaging = Some [\<lparr>ev_sender = None,
                      ev_message = Some \<lparr>mo_text = Some ''Hi, I need help''\<rparr>\<rparr>]\<rparr>, env) # rest)\<rparr>\<rparr>
   = (Send 500 (Some ''Internal server error''), conversations, [])"
  by (simp add: post_webhook_def handle_entry_def first_event_def)

section \<open>The prompt sent to the completion endpoint\<close>

lemma slice_butlast: "slice 0 (- 1) xs = butlast xs"
proof -
  have "nat (max (int (length xs) - 1) 0) = length xs - 1" by arith
  then show ?thesis
    by (simp add: slice_def relative_index_def Let_def butlast_conv_take)
qed

lemma addMessageToConversation_pushes:
  assumes "addMessageToConversation r conversations userId username message sender =
      Inr (conversation, conversations')"
  shows "\<exists>history. c_messages conversation = history @
      [\<lparr>m_id = r_message_id r, m_text = message, m_sender = sender, m_timestamp = r_timestamp r\<rparr>]"
  using assms
  by (auto simp: addMessageToConversation_def Let_def split: sum.splits prod.splits)


text \<open>The variant in src/unnamed/part_000 builds its requests in the same way.\<close>

lemma handle_entry_part0_prompt:
  assumes "LLMRequest rq \<in> set (snd (handle_entry_part0 cfg conversations entry env))"
  shows "\<exists>webhookEvent sndr msg t conversation conversations' history.
     first_event entry = Some webhookEvent \<and> ev_sender webhookEvent = Some sndr \<and>
     ev_message webhookEvent = Some msg \<and> mo_text msg = Some t \<and>
     addMessageToConversation (e_reads env) conversations (s_id sndr) None t ''user'' =
       Inr (conversation, conversations') \<and>
     c_messages conversation = history @
       [\<lparr>m_id = r_message_id (e_reads env), m_text = t, m_sender = ''user'',
         m_timestamp = r_timestamp (e_reads env)\<rparr>] \<and>
     rq = openai_request cfg t history"
proof -
  from assms obtain webhookEvent where ev: "first_event entry = Some webhookEvent"
    by (cases "first_event entry") (auto simp: handle_entry_part0_def)
  from assms ev obtain msg where msg: "ev_message webhookEvent = Some msg"
    by (cases "ev_message webhookEvent") (auto simp: handle_entry_part0_def)
  from assms ev msg obtain sndr where sndr: "ev_sender webhookEvent = Some sndr"
    by (cases "ev_sender webhookEvent") (auto simp: handle_entry_part0_def)
  from assms ev msg sndr have tr: "truthy (mo_text msg)"
    by (auto simp: handle_entry_part0_def Let_def split: if_splits)
  then obtain t where t: "mo_text msg = Some t"
    by (cases "mo_text msg") (auto simp: truthy_def)
  from assms ev msg sndr tr t obtain conversation conversations' where
    a: "addMessageToConversation (e_reads env) conversations (s_id sndr) None t ''user'' =
       Inr (conversation, conversations')"
    by (cases "addMessageToConversation (e_reads env) conversations (s_id sndr) None t ''user''")
       (auto simp: handle_entry_part0_def Let_def)
  from addMessageToConversation_pushes[OF a] obtain history where
    h: "c_messages conversation = history @
       [\<lparr>m_id = r_message_id (e_reads env), m_text = t, m_sender = ''user'',
         m_timestamp = r_timestamp (e_reads env)\<rparr>]"
    by blast
  have rq: "rq = openai_request cfg t history"
    using assms ev msg sndr tr t a h
    by (auto simp: handle_entry_part0_def Let_def sendMessageToLLM_part0_def
        sendMessageToOpenAI_part0_def slice_butlast split: sum.splits)
  from ev sndr msg t a h rq show ?thesis by blast
qed




end
